theory Spec2Isabelle
  imports Complex_Main
begin

section \<open>C44Matrix: a 4x4 matrix applied to pixel data\<close>

text \<open>
  The plugin exists in two source variants: \<^verbatim>\<open>src/C44Matrix.cpp\<close> (the
  original) and \<^verbatim>\<open>src/16.1+/C44Matrix.cpp\<close> (the port to the newer
  host API). Both are embedded here. The host library (DDImage) is not part of the
  sources, only its use is. Its data types are modelled as far as the plugin reads
  and writes them; the few operations whose meaning the claims rest on (building a
  matrix from an array and reading it back, the identity, the transposition, the
  division of a vector by a number) are modelled from the spec and from what the
  source says about them; every other routine is a parameter of the model, collected
  in the record \<open>DDImage\<close> below.

  Single-precision numbers have the type \<open>'f\<close> and double-precision numbers the
  type \<open>'d\<close>. Nothing is assumed about their arithmetic: \<open>'f\<close> only has to
  carry the constants \<open>0\<close> and \<open>1\<close> and a division, so every theorem holds
  for whatever the machine's \<^verbatim>\<open>float\<close> division returns.
\<close>

subsection \<open>Library data: vectors, matrices, rows, knobs, operators\<close>

text \<open>\<^verbatim>\<open>Vector4\<close>: the four members \<^verbatim>\<open>x, y, z, w\<close>.\<close>

datatype 'f Vector4 = Vector4 (v_x: 'f) (v_y: 'f) (v_z: 'f) (v_w: 'f)

text \<open>
  Modelled from the spec: the operator \<^verbatim>\<open>Vector4::operator/=\<close> of the library
  header, which is not among the sources. The spec (4.4, step 3): "divide all four
  transformed components by the transformed W component"; the knob's tooltip in the
  source: "Divide the resulting vector by its w component. The result will be
  red/alpha, green/alpha, blue/alpha, 1.0". So \<^verbatim>\<open>pw /= d\<close> divides every member
  by the same number \<open>d\<close>, the value of the argument at the call.
\<close>

definition Vector4_div_assign :: "'f::inverse Vector4 \<Rightarrow> 'f \<Rightarrow> 'f Vector4" where
  "Vector4_div_assign v d = Vector4 (v_x v / d) (v_y v / d) (v_z v / d) (v_w v / d)"

text \<open>
  \<^verbatim>\<open>Matrix4\<close> (and \<^verbatim>\<open>fdk::Mat4d\<close>, \<^verbatim>\<open>fdk::Mat4f\<close>): sixteen numbers, "a flat
  float[16] array" in the words of the source; the constructor arguments are in the
  order of that array.
\<close>

datatype 'f Matrix4 =
  Matrix4 'f 'f 'f 'f  'f 'f 'f 'f  'f 'f 'f 'f  'f 'f 'f 'f

text \<open>
  Modelled from the spec: \<^verbatim>\<open>Matrix4::array()\<close> of the library header, which is not
  among the sources. It points to the sixteen numbers in storage order (the source
  reads \<^verbatim>\<open>mtx_vals[0]\<close> .. \<^verbatim>\<open>mtx_vals[15]\<close> from it; the spec, 4.5: "a flat
  ordered sequence of 16 numeric values").
\<close>

fun Matrix4_array :: "'f Matrix4 \<Rightarrow> 'f list" where
  "Matrix4_array (Matrix4 a0 a1 a2 a3 a4 a5 a6 a7 a8 a9 a10 a11 a12 a13 a14 a15) =
     [a0, a1, a2, a3, a4, a5, a6, a7, a8, a9, a10, a11, a12, a13, a14, a15]"

text \<open>
  Modelled from the spec: the constructor \<^verbatim>\<open>Matrix4(const float*)\<close> of the library
  header, which is not among the sources. It takes the sixteen numbers at the
  pointer, in order (the spec, 4.3: the array "reinterpreted as a 4x4 (16 values,
  row-major, as entered by the user)"; the source: "we build via the
  Matrix4(const float*) constructor"). The array knob is declared 4 by 4, so the
  pointer holds sixteen numbers; on a shorter list the model reads unspecified
  values, and the theorems that depend on the array assume its length.
\<close>

definition Matrix4_of_array :: "'f list \<Rightarrow> 'f Matrix4" where
  "Matrix4_of_array a =
     Matrix4 (a ! 0) (a ! 1) (a ! 2) (a ! 3) (a ! 4) (a ! 5) (a ! 6) (a ! 7)
             (a ! 8) (a ! 9) (a ! 10) (a ! 11) (a ! 12) (a ! 13) (a ! 14) (a ! 15)"

text \<open>
  Modelled from the spec: \<^verbatim>\<open>Matrix4::makeIdentity()\<close> and
  \<^verbatim>\<open>Mat4f::setToIdentity()\<close> of the library headers, which are not among the
  sources. The identity matrix (the spec, 4.1: \<^verbatim>\<open>identity()\<close>).
\<close>

definition Matrix4_makeIdentity :: "'f::{zero,one} Matrix4" where
  "Matrix4_makeIdentity = Matrix4 1 0 0 0  0 1 0 0  0 0 1 0  0 0 0 1"

text \<open>
  Modelled from the spec: \<^verbatim>\<open>Matrix4::transpose()\<close> of the library header, which
  is not among the sources. The spec (4.1): "in place, swap off-diagonal pairs". No
  arithmetic is involved, and the result is the same whether the storage order is
  read by rows or by columns.
\<close>

fun Matrix4_transpose :: "'f Matrix4 \<Rightarrow> 'f Matrix4" where
  "Matrix4_transpose (Matrix4 a0 a1 a2 a3 a4 a5 a6 a7 a8 a9 a10 a11 a12 a13 a14 a15) =
     Matrix4 a0 a4 a8 a12  a1 a5 a9 a13  a2 a6 a10 a14  a3 a7 a11 a15"

text \<open>
  A \<^verbatim>\<open>Row\<close>, as far as the plugin touches it: the four channels
  \<^verbatim>\<open>Chan_Red, Chan_Green, Chan_Blue, Chan_Alpha\<close>, each indexed by the
  horizontal pixel position.
\<close>

record 'f Row =
  Chan_Red :: "int \<Rightarrow> 'f"
  Chan_Green :: "int \<Rightarrow> 'f"
  Chan_Blue :: "int \<Rightarrow> 'f"
  Chan_Alpha :: "int \<Rightarrow> 'f"

text \<open>\<^verbatim>\<open>OutputContext\<close>: the frame and the view of an evaluation.\<close>

record OutputContext =
  frame :: real
  view :: int

text \<open>
  A knob holding an enumeration index: \<^verbatim>\<open>get_value()\<close> reads it at the knob's
  current context, \<^verbatim>\<open>get_value_at(frame, view)\<close> at a given one.
\<close>

record Knob =
  get_value :: int
  get_value_at :: "real \<Rightarrow> int \<Rightarrow> int"

text \<open>
  The transform providers. \<^verbatim>\<open>worldTransform()\<close> and \<^verbatim>\<open>projectionMatrix()\<close>
  are the double-precision accessors the newer variant reads, \<^verbatim>\<open>matrix()\<close> and
  \<^verbatim>\<open>projection()\<close> the single-precision ones the original variant reads.
\<close>

record ('f, 'd) CameraOp =
  cam_worldTransform :: "'d Matrix4"
  cam_projectionMatrix :: "'d Matrix4"
  cam_matrix :: "'f Matrix4"
  cam_projection :: "'f Matrix4"

record ('f, 'd) AxisOp =
  axis_worldTransform :: "'d Matrix4"
  axis_matrix :: "'f Matrix4"

text \<open>
  What \<^verbatim>\<open>Op::input(1)\<close> can be: a null pointer, a camera, an axis, or an operator
  of another class.
\<close>

datatype ('f, 'd) Op =
  NoInput
  | Camera "('f, 'd) CameraOp"
  | Axis "('f, 'd) AxisOp"
  | OtherOp

text \<open>
  \<^verbatim>\<open>dynamic_cast<CameraOp*>\<close> and \<^verbatim>\<open>dynamic_cast<AxisOp*>\<close>: \<open>None\<close> is the
  null pointer. The source tests the camera cast first, so an axis is an operator
  that passes the second test and not the first.
\<close>

fun dynamic_cast_CameraOp :: "('f, 'd) Op \<Rightarrow> ('f, 'd) CameraOp option" where
  "dynamic_cast_CameraOp (Camera c) = Some c"
| "dynamic_cast_CameraOp _ = None"

fun dynamic_cast_AxisOp :: "('f, 'd) Op \<Rightarrow> ('f, 'd) AxisOp option" where
  "dynamic_cast_AxisOp (Axis a) = Some a"
| "dynamic_cast_AxisOp _ = None"

text \<open>
  The routines of the library whose results the plugin only passes on. They are
  parameters: the two number conversions, the numerical matrix routines, the
  format-fit matrix of a camera, and the providers' own \<^verbatim>\<open>validate()\<close>.
\<close>

record ('f, 'd, 'fmt) DDImage =
  static_cast_float :: "'d \<Rightarrow> 'f"
  static_cast_double :: "'f \<Rightarrow> 'd"
  Matrix4_inverse :: "'f Matrix4 \<Rightarrow> 'f Matrix4"
  Matrix4_transform :: "'f Matrix4 \<Rightarrow> 'f Vector4 \<Rightarrow> 'f Vector4"
  Matrix4_translationOnly :: "'f Matrix4 \<Rightarrow> 'f Matrix4"
  Matrix4_rotationOnly :: "'f Matrix4 \<Rightarrow> 'f Matrix4"
  Matrix4_scaleOnly :: "'f Matrix4 \<Rightarrow> 'f Matrix4"
  CameraOp_ToFormat :: "'f Matrix4 \<Rightarrow> 'fmt \<Rightarrow> 'f Matrix4"
  CameraOp_to_format :: "('f, 'd) CameraOp \<Rightarrow> 'f Matrix4 \<Rightarrow> 'fmt \<Rightarrow> 'f Matrix4"
  CameraOp_validate :: "('f, 'd) CameraOp \<Rightarrow> ('f, 'd) CameraOp"
  AxisOp_validate :: "('f, 'd) AxisOp \<Rightarrow> ('f, 'd) AxisOp"

subsection \<open>The plugin's state\<close>

text \<open>
  The members of \<^verbatim>\<open>class C44Matrix\<close> (a leading underscore is written \<open>m_\<close>),
  with what the methods read from the host: the two enumeration knobs, the operator
  on input 1, the format of the image input and the abort signal.
  \<^verbatim>\<open>matrixFromOptions\<close> lists "manual input" at index 0 and "from camera/axis
  input" at index 1.
\<close>

record ('f, 'd, 'fmt) C44Matrix =
  m_matrixFrom :: int
  m_matrixOption :: int
  array_mtx :: "'f Matrix4"
  m_arrayKnob :: "'f list"
  m_invert :: bool
  m_transpose :: bool
  m_w_divide :: bool
  knob_matrixFrom :: Knob
  knob_matrixType :: Knob
  input1 :: "('f, 'd) Op"
  input_format :: 'fmt
  aborted :: bool

definition Manual :: int where
  "Manual = 0"

definition FromProvider :: int where
  "FromProvider = 1"

subsection \<open>Extraction from a provider (16.1+ variant)\<close>

text \<open>
  \<^verbatim>\<open>mat4dToMatrix4\<close>: each of the sixteen numbers is narrowed with
  \<^verbatim>\<open>static_cast<float>\<close> into a buffer, from which the matrix is built.
\<close>

definition mat4dToMatrix4 :: "('f, 'd, 'fmt) DDImage \<Rightarrow> 'd Matrix4 \<Rightarrow> 'f Matrix4" where
  "mat4dToMatrix4 L src =
     (let s = Matrix4_array src;
          buf = map (\<lambda>i. static_cast_float L (s ! i)) [0..<16]
      in Matrix4_of_array buf)"

definition mat4fToMatrix4 :: "'f Matrix4 \<Rightarrow> 'f Matrix4" where
  "mat4fToMatrix4 src = Matrix4_of_array (Matrix4_array src)"

definition getCameraMatrix ::
  "('f::{zero,one}, 'd, 'fmt) DDImage \<Rightarrow> ('f, 'd) CameraOp \<Rightarrow> int \<Rightarrow> 'fmt \<Rightarrow> 'f Matrix4" where
  "getCameraMatrix L cam option fmt =
     (let mtx = Matrix4_makeIdentity in
      if option = 0 then mat4dToMatrix4 L (cam_worldTransform cam)
      else if option = 1 then
        Matrix4_translationOnly L (mat4dToMatrix4 L (cam_worldTransform cam))
      else if option = 2 then
        Matrix4_rotationOnly L (mat4dToMatrix4 L (cam_worldTransform cam))
      else if option = 3 then
        Matrix4_scaleOnly L (mat4dToMatrix4 L (cam_worldTransform cam))
      else if option = 4 then mat4dToMatrix4 L (cam_projectionMatrix cam)
      else if option = 5 then
        (let fmtMtx = Matrix4_makeIdentity;
             fmtMtx = CameraOp_ToFormat L fmtMtx fmt
         in mat4fToMatrix4 fmtMtx)
      else mtx)"

definition getAxisMatrix ::
  "('f::{zero,one}, 'd, 'fmt) DDImage \<Rightarrow> ('f, 'd) AxisOp \<Rightarrow> int \<Rightarrow> 'f Matrix4" where
  "getAxisMatrix L axis option =
     (let mtx = Matrix4_makeIdentity in
      if option = 0 then mat4dToMatrix4 L (axis_worldTransform axis)
      else if option = 1 then
        Matrix4_translationOnly L (mat4dToMatrix4 L (axis_worldTransform axis))
      else if option = 2 then
        Matrix4_rotationOnly L (mat4dToMatrix4 L (axis_worldTransform axis))
      else if option = 3 then
        Matrix4_scaleOnly L (mat4dToMatrix4 L (axis_worldTransform axis))
      else if option = 4 then mtx
      else if option = 5 then mtx
      else mtx)"

text \<open>
  \<^verbatim>\<open>_getInputMatrix\<close>: the identity unless input 1 is a camera or an axis; the
  provider is validated before its matrices are read.
\<close>

definition m_getInputMatrix ::
  "('f::{zero,one}, 'd, 'fmt) DDImage \<Rightarrow> ('f, 'd, 'fmt) C44Matrix \<Rightarrow> OutputContext
     \<Rightarrow> 'f Matrix4" where
  "m_getInputMatrix L s context =
     (let cam_mtx = Matrix4_makeIdentity;
          inputOp = input1 s;
          camOp = dynamic_cast_CameraOp inputOp;
          axisOp = dynamic_cast_AxisOp inputOp;
          option = get_value_at (knob_matrixType s) (frame context) (view context)
      in case camOp of
           Some cam \<Rightarrow> getCameraMatrix L (CameraOp_validate L cam) option (input_format s)
         | None \<Rightarrow>
             (case axisOp of
                Some axis \<Rightarrow> getAxisMatrix L (AxisOp_validate L axis) option
              | None \<Rightarrow> cam_mtx))"

subsection \<open>The live-value bridge (16.1+ variant)\<close>

text \<open>
  The copying loop of both \<^verbatim>\<open>provideValues\<close> overloads:
  \<^verbatim>\<open>for (i = 0; i < count; ++i) values[i] = static_cast<double>(mtx_vals[i])\<close>.
\<close>

function provideValues_loop ::
  "('f, 'd, 'fmt) DDImage \<Rightarrow> 'f list \<Rightarrow> nat \<Rightarrow> nat \<Rightarrow> 'd list \<Rightarrow> 'd list" where
  "provideValues_loop L mtx_vals count i values =
     (if i < count
      then provideValues_loop L mtx_vals count (i + 1)
             (values[i := static_cast_double L (mtx_vals ! i)])
      else values)"
  by pat_completeness auto
termination
  by (relation "measure (\<lambda>(L, mtx_vals, count, i, values). count - i)") auto

declare provideValues_loop.simps [simp del]

text \<open>The overload that returns a vector of sixteen numbers.\<close>

definition provideValues ::
  "('f::{zero,one}, 'd::zero, 'fmt) DDImage \<Rightarrow> ('f, 'd, 'fmt) C44Matrix \<Rightarrow> OutputContext
     \<Rightarrow> 'd list" where
  "provideValues L s oc =
     (let values = replicate 16 0;
          cam_mtx = Matrix4_makeIdentity;
          cam_mtx = (if get_value_at (knob_matrixFrom s) (frame oc) (view oc) = 1
                     then m_getInputMatrix L s oc else cam_mtx);
          mtx_vals = Matrix4_array cam_mtx
      in provideValues_loop L mtx_vals 16 0 values)"

text \<open>
  The overload that writes into the caller's buffer \<open>values\<close> of \<open>nValues\<close>
  numbers, and returns the buffer.
\<close>

definition provideValues_buffer ::
  "('f::{zero,one}, 'd, 'fmt) DDImage \<Rightarrow> ('f, 'd, 'fmt) C44Matrix \<Rightarrow> 'd list \<Rightarrow> nat
     \<Rightarrow> OutputContext \<Rightarrow> 'd list" where
  "provideValues_buffer L s values nValues oc =
     (let cam_mtx = Matrix4_makeIdentity;
          cam_mtx = (if get_value_at (knob_matrixFrom s) (frame oc) (view oc) = 1
                     then m_getInputMatrix L s oc else cam_mtx);
          mtx_vals = Matrix4_array cam_mtx;
          count = min nValues 16
      in provideValues_loop L mtx_vals count 0 values)"

definition provideValuesEnabled :: "('f, 'd, 'fmt) C44Matrix \<Rightarrow> OutputContext \<Rightarrow> bool" where
  "provideValuesEnabled s oc = (get_value (knob_matrixFrom s) = 1)"

definition isDefault :: "('f, 'd, 'fmt) C44Matrix \<Rightarrow> OutputContext \<Rightarrow> bool" where
  "isDefault s oc = False"

definition isAnimated :: "('f, 'd, 'fmt) C44Matrix \<Rightarrow> OutputContext \<Rightarrow> bool" where
  "isAnimated s oc = (m_matrixFrom s = 1)"

subsection \<open>The live-value bridge (original variant)\<close>

text \<open>
  The loop \<^verbatim>\<open>while (i<16) values.push_back(mtx_vals[i++])\<close>; the vector holds
  doubles, so each number pushed is widened.
\<close>

function legacy_push_loop ::
  "('f, 'd, 'fmt) DDImage \<Rightarrow> 'f list \<Rightarrow> nat \<Rightarrow> 'd list \<Rightarrow> 'd list" where
  "legacy_push_loop L mtx_vals i values =
     (if i < 16
      then legacy_push_loop L mtx_vals (i + 1)
             (values @ [static_cast_double L (mtx_vals ! i)])
      else values)"
  by pat_completeness auto
termination
  by (relation "measure (\<lambda>(L, mtx_vals, i, values). 16 - i)") auto

declare legacy_push_loop.simps [simp del]

text \<open>
  \<^verbatim>\<open>provideValues\<close> of the original variant. The two \<^verbatim>\<open>switch\<close> statements
  leave \<open>cam_mtx\<close> as it is, the identity, for an option outside 0..5.
\<close>

definition legacy_provideValues ::
  "('f::{zero,one}, 'd, 'fmt) DDImage \<Rightarrow> ('f, 'd, 'fmt) C44Matrix \<Rightarrow> OutputContext
     \<Rightarrow> 'd list" where
  "legacy_provideValues L s context =
     (let values = [];
          cam_mtx = Matrix4_makeIdentity;
          cam_mtx =
            (if get_value_at (knob_matrixFrom s) (frame context) (view context) = 1 then
               (let inputOp = input1 s;
                    camOp = dynamic_cast_CameraOp inputOp;
                    axisOp = dynamic_cast_AxisOp inputOp
                in case camOp of
                     Some cam0 \<Rightarrow>
                       (let cam = CameraOp_validate L cam0;
                            option = get_value_at (knob_matrixType s)
                                       (frame context) (view context)
                        in if option = 0 then cam_matrix cam
                           else if option = 1 then Matrix4_translationOnly L (cam_matrix cam)
                           else if option = 2 then Matrix4_rotationOnly L (cam_matrix cam)
                           else if option = 3 then Matrix4_scaleOnly L (cam_matrix cam)
                           else if option = 4 then cam_projection cam
                           else if option = 5 then
                             CameraOp_to_format L cam cam_mtx (input_format s)
                           else cam_mtx)
                   | None \<Rightarrow>
                       (case axisOp of
                          Some axis0 \<Rightarrow>
                            (let axis = AxisOp_validate L axis0;
                                 option = get_value_at (knob_matrixType s)
                                            (frame context) (view context)
                             in if option = 0 then axis_matrix axis
                                else if option = 1 then
                                  Matrix4_translationOnly L (axis_matrix axis)
                                else if option = 2 then
                                  Matrix4_rotationOnly L (axis_matrix axis)
                                else if option = 3 then
                                  Matrix4_scaleOnly L (axis_matrix axis)
                                else if option = 4 then Matrix4_makeIdentity
                                else if option = 5 then Matrix4_makeIdentity
                                else cam_mtx)
                        | None \<Rightarrow> cam_mtx))
             else cam_mtx);
          mtx_vals = Matrix4_array cam_mtx
      in legacy_push_loop L mtx_vals 0 values)"

definition legacy_provideValuesEnabled ::
  "('f, 'd, 'fmt) C44Matrix \<Rightarrow> OutputContext \<Rightarrow> bool" where
  "legacy_provideValuesEnabled s oc = (get_value (knob_matrixFrom s) = 1)"

subsection \<open>Validation and the pixel kernel (both variants)\<close>

text \<open>
  \<^verbatim>\<open>_validate\<close>: the matrix is rebuilt from the array knob, then transposed
  and inverted as the two flags ask. The calls that follow in the source only
  declare the output channels to the host and do not touch the matrix.
\<close>

definition m_validate ::
  "('f, 'd, 'fmt) DDImage \<Rightarrow> ('f, 'd, 'fmt) C44Matrix \<Rightarrow> ('f, 'd, 'fmt) C44Matrix" where
  "m_validate L s =
     (let s = s\<lparr>array_mtx := Matrix4_of_array (m_arrayKnob s)\<rparr>;
          s = (if m_transpose s
               then s\<lparr>array_mtx := Matrix4_transpose (array_mtx s)\<rparr> else s);
          s = (if m_invert s
               then s\<lparr>array_mtx := Matrix4_inverse L (array_mtx s)\<rparr> else s)
      in s)"

text \<open>One pass through the body of the loop of \<^verbatim>\<open>pixel_engine\<close>, at position \<open>X\<close>.\<close>

definition pixel_engine_body ::
  "('f::inverse, 'd, 'fmt) DDImage \<Rightarrow> ('f, 'd, 'fmt) C44Matrix \<Rightarrow> 'f Row \<Rightarrow> int \<Rightarrow> 'f Row
     \<Rightarrow> 'f Row" where
  "pixel_engine_body L s inp X out =
     (let sc = Vector4 (Chan_Red inp X) (Chan_Green inp X) (Chan_Blue inp X)
                 (Chan_Alpha inp X);
          pw = Matrix4_transform L (array_mtx s) sc;
          pw = (if m_w_divide s then Vector4_div_assign pw (v_w pw) else pw);
          out = out\<lparr>Chan_Red := (Chan_Red out)(X := v_x pw)\<rparr>;
          out = out\<lparr>Chan_Green := (Chan_Green out)(X := v_y pw)\<rparr>;
          out = out\<lparr>Chan_Blue := (Chan_Blue out)(X := v_z pw)\<rparr>;
          out = out\<lparr>Chan_Alpha := (Chan_Alpha out)(X := v_w pw)\<rparr>
      in out)"

text \<open>\<^verbatim>\<open>for (int X = x; X < r; X++)\<close>.\<close>

function pixel_engine_loop ::
  "('f::inverse, 'd, 'fmt) DDImage \<Rightarrow> ('f, 'd, 'fmt) C44Matrix \<Rightarrow> 'f Row \<Rightarrow> int \<Rightarrow> int
     \<Rightarrow> 'f Row \<Rightarrow> 'f Row" where
  "pixel_engine_loop L s inp X r out =
     (if X < r
      then pixel_engine_loop L s inp (X + 1) r (pixel_engine_body L s inp X out)
      else out)"
  by pat_completeness auto
termination
  by (relation "measure (\<lambda>(L, s, inp, X, r, out). nat (r - X))") auto

declare pixel_engine_loop.simps [simp del]

text \<open>
  \<^verbatim>\<open>pixel_engine\<close>: nothing is written when the host has aborted; otherwise the
  positions \<open>x \<le> X < r\<close> of the four output channels are written, left to right.
  The arguments \<open>y\<close> and \<^verbatim>\<open>channels\<close> are not used by the source; \<open>y\<close> is
  kept, the channel mask is left out.
\<close>

definition pixel_engine ::
  "('f::inverse, 'd, 'fmt) DDImage \<Rightarrow> ('f, 'd, 'fmt) C44Matrix \<Rightarrow> 'f Row \<Rightarrow> int \<Rightarrow> int
     \<Rightarrow> int \<Rightarrow> 'f Row \<Rightarrow> 'f Row" where
  "pixel_engine L s inp y x r out =
     (if aborted s then out else pixel_engine_loop L s inp x r out)"

text \<open>
  \<open>in\<close> and \<open>out\<close> are C++ references and may refer to one row. The same
  function in that case: every write to the row is seen by the reads that follow.
\<close>

function pixel_engine_inplace_loop ::
  "('f::inverse, 'd, 'fmt) DDImage \<Rightarrow> ('f, 'd, 'fmt) C44Matrix \<Rightarrow> int \<Rightarrow> int
     \<Rightarrow> 'f Row \<Rightarrow> 'f Row" where
  "pixel_engine_inplace_loop L s X r row =
     (if X < r
      then pixel_engine_inplace_loop L s (X + 1) r (pixel_engine_body L s row X row)
      else row)"
  by pat_completeness auto
termination
  by (relation "measure (\<lambda>(L, s, X, r, row). nat (r - X))") auto

declare pixel_engine_inplace_loop.simps [simp del]

definition pixel_engine_inplace ::
  "('f::inverse, 'd, 'fmt) DDImage \<Rightarrow> ('f, 'd, 'fmt) C44Matrix \<Rightarrow> int \<Rightarrow> int \<Rightarrow> int
     \<Rightarrow> 'f Row \<Rightarrow> 'f Row" where
  "pixel_engine_inplace L s y x r row =
     (if aborted s then row else pixel_engine_inplace_loop L s x r row)"

text \<open>The four channels of a row at one position, as a vector.\<close>

definition pixel_at :: "'f Row \<Rightarrow> int \<Rightarrow> 'f Vector4" where
  "pixel_at row X =
     Vector4 (Chan_Red row X) (Chan_Green row X) (Chan_Blue row X) (Chan_Alpha row X)"

subsection \<open>Sample data\<close>

text \<open>
  Concrete inputs on which the definitions are evaluated, over the real numbers: a
  library whose conversions are exact, whose \<^verbatim>\<open>transform\<close> is the product of
  the matrix (its array read row by row, as the spec reads it) with the vector, and
  whose providers are already valid (every other routine is that of the library
  \<open>L\<close> it extends); a camera; an axis; a node whose matrix is diagonal; and
  two rows.
\<close>

fun exact_transform :: "real Matrix4 \<Rightarrow> real Vector4 \<Rightarrow> real Vector4" where
  "exact_transform (Matrix4 a0 a1 a2 a3 a4 a5 a6 a7 a8 a9 a10 a11 a12 a13 a14 a15)
     (Vector4 x y z w) =
     Vector4 (a0 * x + a1 * y + a2 * z + a3 * w)
             (a4 * x + a5 * y + a6 * z + a7 * w)
             (a8 * x + a9 * y + a10 * z + a11 * w)
             (a12 * x + a13 * y + a14 * z + a15 * w)"

definition exact_lib :: "(real, real, 'fmt) DDImage \<Rightarrow> (real, real, 'fmt) DDImage" where
  "exact_lib L =
     L\<lparr>static_cast_float := (\<lambda>v. v),
       static_cast_double := (\<lambda>v. v),
       Matrix4_transform := exact_transform,
       CameraOp_validate := (\<lambda>c. c),
       AxisOp_validate := (\<lambda>a. a)\<rparr>"

definition sample_camera :: "(real, real) CameraOp" where
  "sample_camera =
     \<lparr>cam_worldTransform = Matrix4 1 0 0 0  0 1 0 0  0 0 1 0  3 4 5 1,
      cam_projectionMatrix = Matrix4 2 0 0 0  0 3 0 0  0 0 (-1) (-1)  0 0 (-2) 0,
      cam_matrix = Matrix4 1 0 0 0  0 1 0 0  0 0 1 0  3 4 5 1,
      cam_projection = Matrix4 2 0 0 0  0 3 0 0  0 0 (-1) (-1)  0 0 (-2) 0\<rparr>"

definition sample_axis :: "(real, real) AxisOp" where
  "sample_axis =
     \<lparr>axis_worldTransform = Matrix4 2 0 0 0  0 2 0 0  0 0 2 0  7 8 9 1,
      axis_matrix = Matrix4 2 0 0 0  0 2 0 0  0 0 2 0  7 8 9 1\<rparr>"

definition sample_knob :: "int \<Rightarrow> Knob" where
  "sample_knob v = \<lparr>get_value = v, get_value_at = (\<lambda>f w. v)\<rparr>"

definition sample_context :: OutputContext where
  "sample_context = \<lparr>frame = 1, view = 0\<rparr>"

definition sample_node :: "(real, real, unit) C44Matrix" where
  "sample_node =
     \<lparr>m_matrixFrom = 0,
      m_matrixOption = 0,
      array_mtx = Matrix4 1 0 0 0  0 1 0 0  0 0 1 0  0 0 0 2,
      m_arrayKnob = [1, 2, 3, 4, 5, 6, 7, 8, 9, 10, 11, 12, 13, 14, 15, 16],
      m_invert = False,
      m_transpose = False,
      m_w_divide = True,
      knob_matrixFrom = sample_knob 0,
      knob_matrixType = sample_knob 4,
      input1 = Camera sample_camera,
      input_format = (),
      aborted = False\<rparr>"

definition sample_row :: "real Row" where
  "sample_row =
     \<lparr>Chan_Red = (\<lambda>X. if X = 0 then 1 else 4),
      Chan_Green = (\<lambda>X. if X = 0 then 1 else 6),
      Chan_Blue = (\<lambda>X. if X = 0 then 1 else 8),
      Chan_Alpha = (\<lambda>X. if X = 0 then 1 else 0)\<rparr>"

definition blank_row :: "real Row" where
  "blank_row =
     \<lparr>Chan_Red = (\<lambda>X. 0), Chan_Green = (\<lambda>X. 0), Chan_Blue = (\<lambda>X. 0),
      Chan_Alpha = (\<lambda>X. 0)\<rparr>"

section \<open>Properties\<close>

subsection \<open>Matrices and their arrays\<close>

lemma Matrix4_array_length: "length (Matrix4_array m) = 16"
  by (cases m) simp

lemma Matrix4_of_array_array: "Matrix4_of_array (Matrix4_array m) = m"
  by (cases m) (simp add: Matrix4_of_array_def)

lemma upt16: "[0..<16] = [0, 1, 2, 3, 4, 5, 6, 7, 8, 9, 10, 11, 12, 13, 14, 15::nat]"
  by code_simp

lemma Matrix4_array_of_array:
  "length a = 16 \<Longrightarrow> Matrix4_array (Matrix4_of_array a) = a"
proof -
  assume len: "length a = 16"
  have "Matrix4_array (Matrix4_of_array a) = map (\<lambda>i. a ! i) [0..<16]"
    by (simp add: Matrix4_of_array_def upt16)
  also have "\<dots> = map (\<lambda>i. a ! i) [0..<length a]"
    by (simp only: len)
  also have "\<dots> = a"
    by (rule map_nth)
  finally show ?thesis .
qed

lemma mat4dToMatrix4_map: "mat4dToMatrix4 L src = map_Matrix4 (static_cast_float L) src"
  by (cases src) (simp add: mat4dToMatrix4_def Matrix4_of_array_def upt16)

lemma mat4fToMatrix4_id: "mat4fToMatrix4 src = src"
  by (simp add: mat4fToMatrix4_def Matrix4_of_array_array)

subsection \<open>The copying loops\<close>

lemma provideValues_loop_unfold:
  "i < count \<Longrightarrow>
   provideValues_loop L mtx_vals count i vals =
     provideValues_loop L mtx_vals count (i + 1)
       (vals[i := static_cast_double L (mtx_vals ! i)])"
  by (subst provideValues_loop.simps) simp

lemma provideValues_loop_done:
  "\<not> i < count \<Longrightarrow> provideValues_loop L mtx_vals count i vals = vals"
  by (subst provideValues_loop.simps) simp

lemma provideValues_loop_length:
  "length (provideValues_loop L mtx_vals count i vals) = length vals"
proof (induction L mtx_vals count i vals rule: provideValues_loop.induct)
  case (1 L mtx_vals count i vals)
  show ?case
  proof (cases "i < count")
    case True
    have "length (provideValues_loop L mtx_vals count i vals) =
          length (provideValues_loop L mtx_vals count (i + 1)
                    (vals[i := static_cast_double L (mtx_vals ! i)]))"
      by (simp only: provideValues_loop_unfold [OF True])
    also have "\<dots> = length (vals[i := static_cast_double L (mtx_vals ! i)])"
      by (rule "1.IH" [OF True])
    also have "\<dots> = length vals"
      by simp
    finally show ?thesis .
  next
    case False
    show ?thesis by (simp only: provideValues_loop_done [OF False])
  qed
qed

lemma provideValues_loop_nth:
  "j < length vals \<Longrightarrow>
   provideValues_loop L mtx_vals count i vals ! j =
     (if i \<le> j \<and> j < count then static_cast_double L (mtx_vals ! j) else vals ! j)"
proof (induction L mtx_vals count i vals rule: provideValues_loop.induct)
  case (1 L mtx_vals count i vals)
  show ?case
  proof (cases "i < count")
    case True
    have "provideValues_loop L mtx_vals count i vals ! j =
          provideValues_loop L mtx_vals count (i + 1)
            (vals[i := static_cast_double L (mtx_vals ! i)]) ! j"
      by (simp only: provideValues_loop_unfold [OF True])
    also have "\<dots> =
          (if i + 1 \<le> j \<and> j < count then static_cast_double L (mtx_vals ! j)
           else vals[i := static_cast_double L (mtx_vals ! i)] ! j)"
      using "1.IH" [OF True] "1.prems" by simp
    also have "\<dots> =
          (if i \<le> j \<and> j < count then static_cast_double L (mtx_vals ! j) else vals ! j)"
      using True "1.prems" by (cases "i = j") auto
    finally show ?thesis .
  next
    case False
    then have "\<not> (i \<le> j \<and> j < count)" by simp
    then show ?thesis by (simp only: provideValues_loop_done [OF False] if_False)
  qed
qed

lemma map_nth_all:
  "map (\<lambda>j. f (xs ! j)) [0..<length xs] = map f xs"
proof -
  have "map (\<lambda>j. f (xs ! j)) [0..<length xs] = map f (map (\<lambda>j. xs ! j) [0..<length xs])"
    by (simp only: map_map comp_def)
  then show ?thesis by (simp only: map_nth)
qed

lemma provideValues_loop_closed:
  assumes "count \<le> length vals" and "count \<le> length mtx_vals"
  shows "provideValues_loop L mtx_vals count 0 vals =
           map (static_cast_double L) (take count mtx_vals) @ drop count vals"
proof (rule nth_equalityI)
  show "length (provideValues_loop L mtx_vals count 0 vals) =
        length (map (static_cast_double L) (take count mtx_vals) @ drop count vals)"
    using assms by (simp add: provideValues_loop_length)
next
  fix j assume "j < length (provideValues_loop L mtx_vals count 0 vals)"
  then have j: "j < length vals" by (simp add: provideValues_loop_length)
  have len: "length (map (static_cast_double L) (take count mtx_vals)) = count"
    using assms by simp
  show "provideValues_loop L mtx_vals count 0 vals ! j =
        (map (static_cast_double L) (take count mtx_vals) @ drop count vals) ! j"
  proof (cases "j < count")
    case True
    then have "(map (static_cast_double L) (take count mtx_vals) @ drop count vals) ! j =
               map (static_cast_double L) (take count mtx_vals) ! j"
      using len by (simp only: nth_append if_True)
    also have "\<dots> = static_cast_double L (mtx_vals ! j)"
      using True assms by simp
    finally show ?thesis
      using True j by (simp only: provideValues_loop_nth) simp
  next
    case False
    then have "(map (static_cast_double L) (take count mtx_vals) @ drop count vals) ! j =
               drop count vals ! (j - count)"
      using len by (simp only: nth_append if_False)
    also have "\<dots> = vals ! j"
      using False assms by simp
    finally show ?thesis
      using False j by (simp only: provideValues_loop_nth) simp
  qed
qed

lemma legacy_push_loop_unfold:
  "i < 16 \<Longrightarrow>
   legacy_push_loop L mtx_vals i vals =
     legacy_push_loop L mtx_vals (i + 1) (vals @ [static_cast_double L (mtx_vals ! i)])"
  by (subst legacy_push_loop.simps) simp

lemma legacy_push_loop_done:
  "\<not> i < 16 \<Longrightarrow> legacy_push_loop L mtx_vals i vals = vals"
  by (subst legacy_push_loop.simps) simp

lemma legacy_push_loop_closed:
  "i \<le> 16 \<Longrightarrow>
   legacy_push_loop L mtx_vals i vals =
     vals @ map (\<lambda>j. static_cast_double L (mtx_vals ! j)) [i..<16]"
proof (induction L mtx_vals i vals rule: legacy_push_loop.induct)
  case (1 L mtx_vals i vals)
  show ?case
  proof (cases "i < 16")
    case True
    have "[i..<16] = i # [i + 1..<16]"
      using True by (simp add: upt_conv_Cons)
    then have "vals @ map (\<lambda>j. static_cast_double L (mtx_vals ! j)) [i..<16] =
               (vals @ [static_cast_double L (mtx_vals ! i)]) @
                 map (\<lambda>j. static_cast_double L (mtx_vals ! j)) [i + 1..<16]"
      by simp
    also have "\<dots> = legacy_push_loop L mtx_vals (i + 1)
                         (vals @ [static_cast_double L (mtx_vals ! i)])"
      using True by (intro "1.IH" [OF True, symmetric]) simp
    also have "\<dots> = legacy_push_loop L mtx_vals i vals"
      by (simp only: legacy_push_loop_unfold [OF True])
    finally show ?thesis by (rule sym)
  next
    case False
    have "legacy_push_loop L mtx_vals i vals = vals"
      by (rule legacy_push_loop_done [OF False])
    moreover have "[i..<16] = []"
      using False by simp
    ultimately show ?thesis by simp
  qed
qed

subsection \<open>The pixel loop\<close>

lemma pixel_engine_loop_unfold:
  "X < r \<Longrightarrow>
   pixel_engine_loop L s inp X r out =
     pixel_engine_loop L s inp (X + 1) r (pixel_engine_body L s inp X out)"
  by (subst pixel_engine_loop.simps) simp

lemma pixel_engine_loop_done:
  "\<not> X < r \<Longrightarrow> pixel_engine_loop L s inp X r out = out"
  by (subst pixel_engine_loop.simps) simp

lemma pixel_at_body:
  "pixel_at (pixel_engine_body L s inp X0 out) X =
     (if X = X0
      then (let pw = Matrix4_transform L (array_mtx s) (pixel_at inp X)
            in if m_w_divide s then Vector4_div_assign pw (v_w pw) else pw)
      else pixel_at out X)"
  by (simp add: pixel_engine_body_def pixel_at_def Let_def)

lemma pixel_at_loop:
  "pixel_at (pixel_engine_loop L s inp X0 r out) X =
     (if X0 \<le> X \<and> X < r
      then (let pw = Matrix4_transform L (array_mtx s) (pixel_at inp X)
            in if m_w_divide s then Vector4_div_assign pw (v_w pw) else pw)
      else pixel_at out X)"
proof (induction L s inp X0 r out rule: pixel_engine_loop.induct)
  case (1 L s inp X0 r out)
  show ?case
  proof (cases "X0 < r")
    case True
    have "pixel_at (pixel_engine_loop L s inp X0 r out) X =
          pixel_at (pixel_engine_loop L s inp (X0 + 1) r (pixel_engine_body L s inp X0 out)) X"
      by (simp only: pixel_engine_loop_unfold [OF True])
    also have "\<dots> =
          (if X0 + 1 \<le> X \<and> X < r
           then (let pw = Matrix4_transform L (array_mtx s) (pixel_at inp X)
                 in if m_w_divide s then Vector4_div_assign pw (v_w pw) else pw)
           else pixel_at (pixel_engine_body L s inp X0 out) X)"
      by (rule "1.IH" [OF True])
    also have "\<dots> =
          (if X0 \<le> X \<and> X < r
           then (let pw = Matrix4_transform L (array_mtx s) (pixel_at inp X)
                 in if m_w_divide s then Vector4_div_assign pw (v_w pw) else pw)
           else pixel_at out X)"
      using True by (cases "X = X0") (auto simp: pixel_at_body)
    finally show ?thesis .
  next
    case False
    then have "\<not> (X0 \<le> X \<and> X < r)" by simp
    then show ?thesis by (simp only: pixel_engine_loop_done [OF False] if_False)
  qed
qed

lemma pixel_engine_inplace_loop_unfold:
  "X < r \<Longrightarrow>
   pixel_engine_inplace_loop L s X r row =
     pixel_engine_inplace_loop L s (X + 1) r (pixel_engine_body L s row X row)"
  by (subst pixel_engine_inplace_loop.simps) simp

lemma pixel_engine_inplace_loop_done:
  "\<not> X < r \<Longrightarrow> pixel_engine_inplace_loop L s X r row = row"
  by (subst pixel_engine_inplace_loop.simps) simp

lemma pixel_at_inplace_loop:
  "pixel_at (pixel_engine_inplace_loop L s X0 r row) X =
     (if X0 \<le> X \<and> X < r
      then (let pw = Matrix4_transform L (array_mtx s) (pixel_at row X)
            in if m_w_divide s then Vector4_div_assign pw (v_w pw) else pw)
      else pixel_at row X)"
proof (induction L s X0 r row rule: pixel_engine_inplace_loop.induct)
  case (1 L s X0 r row)
  show ?case
  proof (cases "X0 < r")
    case True
    have "pixel_at (pixel_engine_inplace_loop L s X0 r row) X =
          pixel_at (pixel_engine_inplace_loop L s (X0 + 1) r
                      (pixel_engine_body L s row X0 row)) X"
      by (simp only: pixel_engine_inplace_loop_unfold [OF True])
    also have "\<dots> =
          (if X0 + 1 \<le> X \<and> X < r
           then (let pw = Matrix4_transform L (array_mtx s)
                            (pixel_at (pixel_engine_body L s row X0 row) X)
                 in if m_w_divide s then Vector4_div_assign pw (v_w pw) else pw)
           else pixel_at (pixel_engine_body L s row X0 row) X)"
      by (rule "1.IH" [OF True])
    also have "\<dots> =
          (if X0 \<le> X \<and> X < r
           then (let pw = Matrix4_transform L (array_mtx s) (pixel_at row X)
                 in if m_w_divide s then Vector4_div_assign pw (v_w pw) else pw)
           else pixel_at row X)"
      using True by (cases "X = X0") (auto simp: pixel_at_body)
    finally show ?thesis .
  next
    case False
    then have "\<not> (X0 \<le> X \<and> X < r)" by simp
    then show ?thesis by (simp only: pixel_engine_inplace_loop_done [OF False] if_False)
  qed
qed

lemma pixel_at_engine_inplace:
  "pixel_at (pixel_engine_inplace L s y x r row) X =
     (if \<not> aborted s \<and> x \<le> X \<and> X < r
      then (let pw = Matrix4_transform L (array_mtx s) (pixel_at row X)
            in if m_w_divide s then Vector4_div_assign pw (v_w pw) else pw)
      else pixel_at row X)"
  by (simp add: pixel_engine_inplace_def pixel_at_inplace_loop)

lemma pixel_at_engine:
  "pixel_at (pixel_engine L s inp y x r out) X =
     (if \<not> aborted s \<and> x \<le> X \<and> X < r
      then (let pw = Matrix4_transform L (array_mtx s) (pixel_at inp X)
            in if m_w_divide s then Vector4_div_assign pw (v_w pw) else pw)
      else pixel_at out X)"
  by (simp add: pixel_engine_def pixel_at_loop)

lemma pixel_at_fold_body:
  "pixel_at (fold (pixel_engine_body L s inp) Xs out) X =
     (if X \<in> set Xs
      then (let pw = Matrix4_transform L (array_mtx s) (pixel_at inp X)
            in if m_w_divide s then Vector4_div_assign pw (v_w pw) else pw)
      else pixel_at out X)"
proof (induction Xs arbitrary: out)
  case Nil
  show ?case by simp
next
  case (Cons X0 Xs)
  show ?case
    by (simp add: Cons.IH pixel_at_body)
qed

subsection \<open>The bridge and the extraction in closed form\<close>

lemma provideValues_closed:
  "provideValues L s oc =
     map (static_cast_double L)
       (Matrix4_array
          (if get_value_at (knob_matrixFrom s) (frame oc) (view oc) = 1
           then m_getInputMatrix L s oc else Matrix4_makeIdentity))"
  by (simp add: provideValues_def Let_def provideValues_loop_closed Matrix4_array_length)

lemma provideValues_buffer_closed:
  "nValues \<le> length vals \<Longrightarrow>
   provideValues_buffer L s vals nValues oc =
     map (static_cast_double L)
       (take (min nValues 16)
          (Matrix4_array
             (if get_value_at (knob_matrixFrom s) (frame oc) (view oc) = 1
              then m_getInputMatrix L s oc else Matrix4_makeIdentity)))
     @ drop (min nValues 16) vals"
  by (simp add: provideValues_buffer_def Let_def provideValues_loop_closed Matrix4_array_length)

lemma legacy_push_loop_all:
  "legacy_push_loop L (Matrix4_array m) 0 [] = map (static_cast_double L) (Matrix4_array m)"
proof -
  have "legacy_push_loop L (Matrix4_array m) 0 [] =
        map (\<lambda>j. static_cast_double L (Matrix4_array m ! j)) [0..<length (Matrix4_array m)]"
    by (simp add: legacy_push_loop_closed Matrix4_array_length)
  then show ?thesis by (simp only: map_nth_all)
qed

lemma m_getInputMatrix_Camera:
  "input1 s = Camera cam \<Longrightarrow>
   m_getInputMatrix L s oc =
     getCameraMatrix L (CameraOp_validate L cam)
       (get_value_at (knob_matrixType s) (frame oc) (view oc)) (input_format s)"
  by (simp add: m_getInputMatrix_def Let_def)

lemma m_getInputMatrix_Axis:
  "input1 s = Axis axis \<Longrightarrow>
   m_getInputMatrix L s oc =
     getAxisMatrix L (AxisOp_validate L axis)
       (get_value_at (knob_matrixType s) (frame oc) (view oc))"
  by (simp add: m_getInputMatrix_def Let_def)

lemma m_getInputMatrix_none:
  "input1 s = NoInput \<or> input1 s = OtherOp \<Longrightarrow>
   m_getInputMatrix L s oc = Matrix4_makeIdentity"
  by (auto simp: m_getInputMatrix_def Let_def)

lemma legacy_provideValues_manual:
  "get_value_at (knob_matrixFrom s) (frame oc) (view oc) \<noteq> 1 \<Longrightarrow>
   legacy_provideValues L s oc =
     map (static_cast_double L) (Matrix4_array Matrix4_makeIdentity)"
  by (simp add: legacy_provideValues_def Let_def legacy_push_loop_all)

lemma legacy_provideValues_none:
  "input1 s = NoInput \<or> input1 s = OtherOp \<Longrightarrow>
   legacy_provideValues L s oc =
     map (static_cast_double L) (Matrix4_array Matrix4_makeIdentity)"
  by (auto simp: legacy_provideValues_def Let_def legacy_push_loop_all)

lemma legacy_provideValues_Camera_projection:
  "get_value_at (knob_matrixFrom s) (frame oc) (view oc) = 1 \<Longrightarrow>
   input1 s = Camera cam \<Longrightarrow>
   get_value_at (knob_matrixType s) (frame oc) (view oc) = 4 \<Longrightarrow>
   legacy_provideValues L s oc =
     map (static_cast_double L) (Matrix4_array (cam_projection (CameraOp_validate L cam)))"
  by (simp add: legacy_provideValues_def Let_def legacy_push_loop_all)

lemma legacy_provideValues_Axis_projection:
  "get_value_at (knob_matrixFrom s) (frame oc) (view oc) = 1 \<Longrightarrow>
   input1 s = Axis axis \<Longrightarrow>
   get_value_at (knob_matrixType s) (frame oc) (view oc) = 4 \<Longrightarrow>
   legacy_provideValues L s oc =
     map (static_cast_double L) (Matrix4_array Matrix4_makeIdentity)"
  by (simp add: legacy_provideValues_def Let_def legacy_push_loop_all)

section \<open>The claims\<close>

text \<open>
  Claim C1. In \<^verbatim>\<open>_validate\<close> the transposition is applied before the inversion.
  For every array \<open>m_arrayKnob s\<close>, with \<open>M\<close> the matrix built from it: when both
  flags are set the matrix stored in \<open>array_mtx\<close> is the inverse of the transpose of
  \<open>M\<close>; when only one flag is set, only that operation is applied; when neither is
  set, it is \<open>M\<close> itself. The inverse is the library's routine, whatever it
  computes.
\<close>

theorem validate_transpose_then_invert:
  "array_mtx (m_validate L s) =
     (let M = Matrix4_of_array (m_arrayKnob s) in
      if m_transpose s \<and> m_invert s then Matrix4_inverse L (Matrix4_transpose M)
      else if m_transpose s then Matrix4_transpose M
      else if m_invert s then Matrix4_inverse L M
      else M)"
  by (simp add: m_validate_def Let_def)

text \<open>
  Claim C2. For every array of sixteen numbers in the matrix knob, when neither
  \<^verbatim>\<open>invert\<close> nor \<^verbatim>\<open>transpose\<close> is set, the matrix that
  \<^verbatim>\<open>_validate\<close> stores for the pixel kernel holds exactly these sixteen
  numbers, in the same order: entry \<open>4 * r + c\<close> of the array is entry
  \<open>4 * r + c\<close> of the matrix. \<^verbatim>\<open>_validate\<close> does not read the mode, so this
  holds in every mode, the manual one in particular.
\<close>

theorem validate_manual_raw:
  assumes "length (m_arrayKnob s) = 16" and "\<not> m_invert s" and "\<not> m_transpose s"
  shows "Matrix4_array (array_mtx (m_validate L s)) = m_arrayKnob s"
  using assms by (simp add: m_validate_def Let_def Matrix4_array_of_array)

theorem validate_manual_raw_witness:
  "\<forall>L. length (m_arrayKnob sample_node) = 16 \<and> \<not> m_invert sample_node
       \<and> \<not> m_transpose sample_node
       \<and> Matrix4_array (array_mtx (m_validate L sample_node)) =
           [1, 2, 3, 4, 5, 6, 7, 8, 9, 10, 11, 12, 13, 14, 15, 16]"
proof
  fix L :: "(real, real, unit) DDImage"
  have h: "length (m_arrayKnob sample_node) = 16" "\<not> m_invert sample_node"
    "\<not> m_transpose sample_node"
    by (simp_all add: sample_node_def)
  from validate_manual_raw [OF h, of L] h
  show "length (m_arrayKnob sample_node) = 16 \<and> \<not> m_invert sample_node
       \<and> \<not> m_transpose sample_node
       \<and> Matrix4_array (array_mtx (m_validate L sample_node)) =
           [1, 2, 3, 4, 5, 6, 7, 8, 9, 10, 11, 12, 13, 14, 15, 16]"
    by (simp add: sample_node_def)
qed

text \<open>
  Claim C3. With option 4 (projection), the extraction from a camera returns the
  camera's projection matrix and applies no matrix operation to it: in the 16.1+
  variant every entry is narrowed to single precision by \<^verbatim>\<open>mat4dToMatrix4\<close> and
  nothing else happens, in the original variant the sixteen numbers of
  \<^verbatim>\<open>projection()\<close> are published as they are. The extraction from an axis
  returns the identity matrix, whatever the axis holds. Both hold for
  \<^verbatim>\<open>getCameraMatrix\<close> and \<^verbatim>\<open>getAxisMatrix\<close>, for \<^verbatim>\<open>_getInputMatrix\<close>,
  which validates the provider first, and for the original \<^verbatim>\<open>provideValues\<close>.
\<close>

theorem projection_extraction:
  "getCameraMatrix L cam 4 fmt =
     map_Matrix4 (static_cast_float L) (cam_projectionMatrix cam)
   \<and> getAxisMatrix L axis 4 = Matrix4_makeIdentity
   \<and> (input1 s = Camera cam
        \<and> get_value_at (knob_matrixType s) (frame oc) (view oc) = 4 \<longrightarrow>
      m_getInputMatrix L s oc =
        map_Matrix4 (static_cast_float L) (cam_projectionMatrix (CameraOp_validate L cam)))
   \<and> (input1 s = Axis axis
        \<and> get_value_at (knob_matrixType s) (frame oc) (view oc) = 4 \<longrightarrow>
      m_getInputMatrix L s oc = Matrix4_makeIdentity)
   \<and> (input1 s = Camera cam
        \<and> get_value_at (knob_matrixFrom s) (frame oc) (view oc) = FromProvider
        \<and> get_value_at (knob_matrixType s) (frame oc) (view oc) = 4 \<longrightarrow>
      legacy_provideValues L s oc =
        map (static_cast_double L) (Matrix4_array (cam_projection (CameraOp_validate L cam))))
   \<and> (input1 s = Axis axis
        \<and> get_value_at (knob_matrixFrom s) (frame oc) (view oc) = FromProvider
        \<and> get_value_at (knob_matrixType s) (frame oc) (view oc) = 4 \<longrightarrow>
      legacy_provideValues L s oc =
        map (static_cast_double L) (Matrix4_array Matrix4_makeIdentity))"
proof -
  have cam: "getCameraMatrix L c 4 fmt' =
               map_Matrix4 (static_cast_float L) (cam_projectionMatrix c)" for c fmt'
    by (simp add: getCameraMatrix_def mat4dToMatrix4_map)
  have ax: "getAxisMatrix L a 4 = Matrix4_makeIdentity" for a
    by (simp add: getAxisMatrix_def)
  show ?thesis
    by (simp add: cam ax m_getInputMatrix_Camera m_getInputMatrix_Axis FromProvider_def
          legacy_provideValues_Camera_projection legacy_provideValues_Axis_projection)
qed

theorem projection_extraction_witness:
  "\<forall>L. input1 sample_node = Camera sample_camera
       \<and> get_value_at (knob_matrixType sample_node)
            (frame sample_context) (view sample_context) = 4
       \<and> get_value_at (knob_matrixFrom (sample_node\<lparr>knob_matrixFrom := sample_knob 1\<rparr>))
            (frame sample_context) (view sample_context) = FromProvider
       \<and> input1 (sample_node\<lparr>input1 := Axis sample_axis\<rparr>) = Axis sample_axis
       \<and> m_getInputMatrix (exact_lib L) sample_node sample_context =
            Matrix4 2 0 0 0  0 3 0 0  0 0 (-1) (-1)  0 0 (-2) 0
       \<and> m_getInputMatrix (exact_lib L) (sample_node\<lparr>input1 := Axis sample_axis\<rparr>)
            sample_context =
            Matrix4 1 0 0 0  0 1 0 0  0 0 1 0  0 0 0 1
       \<and> legacy_provideValues (exact_lib L)
            (sample_node\<lparr>knob_matrixFrom := sample_knob 1\<rparr>) sample_context =
            [2, 0, 0, 0, 0, 3, 0, 0, 0, 0, -1, -1, 0, 0, -2, 0]
       \<and> legacy_provideValues (exact_lib L)
            (sample_node\<lparr>knob_matrixFrom := sample_knob 1, input1 := Axis sample_axis\<rparr>)
            sample_context =
            [1, 0, 0, 0, 0, 1, 0, 0, 0, 0, 1, 0, 0, 0, 0, 1]"
proof
  fix L :: "(real, real, unit) DDImage"
  note a = projection_extraction [of "exact_lib L" sample_camera "()" sample_axis
      sample_node sample_context]
  note b = projection_extraction [of "exact_lib L" sample_camera "()" sample_axis
      "sample_node\<lparr>input1 := Axis sample_axis\<rparr>" sample_context]
  note c = projection_extraction [of "exact_lib L" sample_camera "()" sample_axis
      "sample_node\<lparr>knob_matrixFrom := sample_knob 1\<rparr>" sample_context]
  note d = projection_extraction [of "exact_lib L" sample_camera "()" sample_axis
      "sample_node\<lparr>knob_matrixFrom := sample_knob 1, input1 := Axis sample_axis\<rparr>"
      sample_context]
  from a b c d
  show "input1 sample_node = Camera sample_camera
       \<and> get_value_at (knob_matrixType sample_node)
            (frame sample_context) (view sample_context) = 4
       \<and> get_value_at (knob_matrixFrom (sample_node\<lparr>knob_matrixFrom := sample_knob 1\<rparr>))
            (frame sample_context) (view sample_context) = FromProvider
       \<and> input1 (sample_node\<lparr>input1 := Axis sample_axis\<rparr>) = Axis sample_axis
       \<and> m_getInputMatrix (exact_lib L) sample_node sample_context =
            Matrix4 2 0 0 0  0 3 0 0  0 0 (-1) (-1)  0 0 (-2) 0
       \<and> m_getInputMatrix (exact_lib L) (sample_node\<lparr>input1 := Axis sample_axis\<rparr>)
            sample_context =
            Matrix4 1 0 0 0  0 1 0 0  0 0 1 0  0 0 0 1
       \<and> legacy_provideValues (exact_lib L)
            (sample_node\<lparr>knob_matrixFrom := sample_knob 1\<rparr>) sample_context =
            [2, 0, 0, 0, 0, 3, 0, 0, 0, 0, -1, -1, 0, 0, -2, 0]
       \<and> legacy_provideValues (exact_lib L)
            (sample_node\<lparr>knob_matrixFrom := sample_knob 1, input1 := Axis sample_axis\<rparr>)
            sample_context =
            [1, 0, 0, 0, 0, 1, 0, 0, 0, 0, 1, 0, 0, 0, 0, 1]"
    by (simp add: sample_node_def sample_knob_def sample_camera_def sample_context_def
          exact_lib_def FromProvider_def Matrix4_makeIdentity_def)
qed

text \<open>
  Claim C4. In the mode "from camera/axis input", when input 1 is not connected or
  is neither a camera nor an axis, the matrix resolved from the input is the
  identity: \<^verbatim>\<open>_getInputMatrix\<close> returns it, and both variants of
  \<^verbatim>\<open>provideValues\<close> publish its sixteen numbers. The functions have no error
  result: they return these values on every such input.
\<close>

theorem no_provider_identity:
  assumes "input1 s = NoInput \<or> input1 s = OtherOp"
    and "get_value_at (knob_matrixFrom s) (frame oc) (view oc) = FromProvider"
  shows "m_getInputMatrix L s oc = Matrix4_makeIdentity
         \<and> provideValues L s oc =
             map (static_cast_double L) (Matrix4_array Matrix4_makeIdentity)
         \<and> legacy_provideValues L s oc =
             map (static_cast_double L) (Matrix4_array Matrix4_makeIdentity)"
  using assms
  by (simp add: m_getInputMatrix_none provideValues_closed legacy_provideValues_none)

theorem no_provider_identity_witness:
  "\<forall>L. (input1 (sample_node\<lparr>knob_matrixFrom := sample_knob 1, input1 := OtherOp\<rparr>) = NoInput
          \<or> input1 (sample_node\<lparr>knob_matrixFrom := sample_knob 1, input1 := OtherOp\<rparr>)
              = OtherOp)
       \<and> get_value_at
            (knob_matrixFrom (sample_node\<lparr>knob_matrixFrom := sample_knob 1, input1 := OtherOp\<rparr>))
            (frame sample_context) (view sample_context) = FromProvider
       \<and> m_getInputMatrix (exact_lib L)
            (sample_node\<lparr>knob_matrixFrom := sample_knob 1, input1 := OtherOp\<rparr>)
            sample_context =
            Matrix4 1 0 0 0  0 1 0 0  0 0 1 0  0 0 0 1
       \<and> provideValues (exact_lib L)
            (sample_node\<lparr>knob_matrixFrom := sample_knob 1, input1 := OtherOp\<rparr>)
            sample_context =
            [1, 0, 0, 0, 0, 1, 0, 0, 0, 0, 1, 0, 0, 0, 0, 1]
       \<and> legacy_provideValues (exact_lib L)
            (sample_node\<lparr>knob_matrixFrom := sample_knob 1, input1 := OtherOp\<rparr>)
            sample_context =
            [1, 0, 0, 0, 0, 1, 0, 0, 0, 0, 1, 0, 0, 0, 0, 1]
       \<and> provideValues (exact_lib L)
            (sample_node\<lparr>knob_matrixFrom := sample_knob 1, input1 := NoInput\<rparr>)
            sample_context =
            [1, 0, 0, 0, 0, 1, 0, 0, 0, 0, 1, 0, 0, 0, 0, 1]"
proof
  fix L :: "(real, real, unit) DDImage"
  let ?s = "sample_node\<lparr>knob_matrixFrom := sample_knob 1, input1 := OtherOp\<rparr>"
  let ?n = "sample_node\<lparr>knob_matrixFrom := sample_knob 1, input1 := NoInput\<rparr>"
  have h1: "input1 ?s = NoInput \<or> input1 ?s = OtherOp"
    by simp
  have h2: "get_value_at (knob_matrixFrom ?s) (frame sample_context) (view sample_context)
              = FromProvider"
    by (simp add: sample_knob_def FromProvider_def)
  have n1: "input1 ?n = NoInput \<or> input1 ?n = OtherOp"
    by simp
  have n2: "get_value_at (knob_matrixFrom ?n) (frame sample_context) (view sample_context)
              = FromProvider"
    by (simp add: sample_knob_def FromProvider_def)
  from no_provider_identity [OF h1 h2, of "exact_lib L"]
    no_provider_identity [OF n1 n2, of "exact_lib L"] h1 h2
  show "(input1 ?s = NoInput \<or> input1 ?s = OtherOp)
       \<and> get_value_at (knob_matrixFrom ?s) (frame sample_context) (view sample_context)
            = FromProvider
       \<and> m_getInputMatrix (exact_lib L) ?s sample_context =
            Matrix4 1 0 0 0  0 1 0 0  0 0 1 0  0 0 0 1
       \<and> provideValues (exact_lib L) ?s sample_context =
            [1, 0, 0, 0, 0, 1, 0, 0, 0, 0, 1, 0, 0, 0, 0, 1]
       \<and> legacy_provideValues (exact_lib L) ?s sample_context =
            [1, 0, 0, 0, 0, 1, 0, 0, 0, 0, 1, 0, 0, 0, 0, 1]
       \<and> provideValues (exact_lib L) ?n sample_context =
            [1, 0, 0, 0, 0, 1, 0, 0, 0, 0, 1, 0, 0, 0, 0, 1]"
    by (simp add: exact_lib_def Matrix4_makeIdentity_def)
qed

text \<open>
  Claim C5. When \<^verbatim>\<open>w_divide\<close> is set (and the host has not aborted), the pixel
  written at every position \<open>x \<le> X < r\<close> is the transformed vector with each of
  its four components divided by its own fourth component. In particular, over
  exact arithmetic, whenever the matrix maps \<open>(1, 1, 1, 1)\<close> to \<open>(1, 1, 1, 2)\<close>, the
  pixel written for the input \<open>(1, 1, 1, 1)\<close> is \<open>(0.5, 0.5, 0.5, 1.0)\<close>. The first
  part holds for every division on the numbers; the second is stated for the real
  numbers, where 1 / 2 and 2 / 2 are the values floating-point division returns
  exactly.
\<close>

theorem pixel_engine_w_divide:
  fixes L :: "('f::inverse, 'd, 'fmt) DDImage"
    and Lr :: "(real, 'dr, 'fmtr) DDImage"
  shows
    "(\<not> aborted s \<and> m_w_divide s \<and> x \<le> X \<and> X < r \<longrightarrow>
        pixel_at (pixel_engine L s inp y x r out) X =
          (let pw = Matrix4_transform L (array_mtx s) (pixel_at inp X)
           in Vector4 (v_x pw / v_w pw) (v_y pw / v_w pw) (v_z pw / v_w pw)
                (v_w pw / v_w pw)))
     \<and> (\<not> aborted sr \<and> m_w_divide sr \<and> xr \<le> Xr \<and> Xr < rr
          \<and> pixel_at inr Xr = Vector4 1 1 1 1
          \<and> Matrix4_transform Lr (array_mtx sr) (Vector4 1 1 1 1) = Vector4 1 1 1 2 \<longrightarrow>
        pixel_at (pixel_engine Lr sr inr yr xr rr outr) Xr = Vector4 0.5 0.5 0.5 1.0)"
  by (simp add: pixel_at_engine Vector4_div_assign_def Let_def)

theorem pixel_engine_w_divide_witness:
  "\<forall>L. \<not> aborted sample_node \<and> m_w_divide sample_node \<and> (0::int) \<le> 0 \<and> (0::int) < 2
       \<and> pixel_at sample_row 0 = Vector4 1 1 1 1
       \<and> Matrix4_transform (exact_lib L) (array_mtx sample_node) (Vector4 1 1 1 1)
            = Vector4 1 1 1 2
       \<and> pixel_at (pixel_engine (exact_lib L) sample_node sample_row 0 0 2 blank_row) 0
            = Vector4 0.5 0.5 0.5 1.0"
proof
  fix L :: "(real, real, unit) DDImage"
  have h: "\<not> aborted sample_node" "m_w_divide sample_node"
    "pixel_at sample_row 0 = Vector4 1 1 1 1"
    "Matrix4_transform (exact_lib L) (array_mtx sample_node) (Vector4 1 1 1 1)
       = Vector4 1 1 1 2"
    by (simp_all add: sample_node_def sample_row_def pixel_at_def exact_lib_def)
  from pixel_engine_w_divide [of sample_node 0 0 2 "exact_lib L" sample_row 0 blank_row
      sample_node 0 0 2 sample_row "exact_lib L" 0 blank_row] h
  show "\<not> aborted sample_node \<and> m_w_divide sample_node \<and> (0::int) \<le> 0 \<and> (0::int) < 2
       \<and> pixel_at sample_row 0 = Vector4 1 1 1 1
       \<and> Matrix4_transform (exact_lib L) (array_mtx sample_node) (Vector4 1 1 1 1)
            = Vector4 1 1 1 2
       \<and> pixel_at (pixel_engine (exact_lib L) sample_node sample_row 0 0 2 blank_row) 0
            = Vector4 0.5 0.5 0.5 1.0"
    by simp
qed

text \<open>
  Claim C6. When \<^verbatim>\<open>w_divide\<close> is set and the fourth component of the
  transformed vector is zero at a position \<open>x \<le> X < r\<close>, the kernel still writes
  the four output channels there: each is the quotient of the component by zero,
  as the division of the numbers returns it. There is no branch on the divisor: the
  equation is the one of Claim C5, at divisor zero. The division is the operation
  of the type \<open>'f\<close>, about which nothing is assumed; so whenever every quotient
  by zero lies in a set \<open>N\<close> (for IEEE-754 numbers: the infinities and the NaNs),
  the four channels written lie in \<open>N\<close>.
\<close>

theorem pixel_engine_w_zero:
  fixes L :: "('f::{zero,inverse}, 'd, 'fmt) DDImage"
  assumes "\<not> aborted s" and "m_w_divide s" and "x \<le> X" and "X < r"
    and "v_w (Matrix4_transform L (array_mtx s) (pixel_at inp X)) = 0"
  shows "pixel_at (pixel_engine L s inp y x r out) X =
           (let pw = Matrix4_transform L (array_mtx s) (pixel_at inp X)
            in Vector4 (v_x pw / 0) (v_y pw / 0) (v_z pw / 0) (0 / 0))
         \<and> ((\<forall>a::'f. a / 0 \<in> N) \<longrightarrow>
              v_x (pixel_at (pixel_engine L s inp y x r out) X) \<in> N
              \<and> v_y (pixel_at (pixel_engine L s inp y x r out) X) \<in> N
              \<and> v_z (pixel_at (pixel_engine L s inp y x r out) X) \<in> N
              \<and> v_w (pixel_at (pixel_engine L s inp y x r out) X) \<in> N)"
proof -
  have written: "pixel_at (pixel_engine L s inp y x r out) X =
           (let pw = Matrix4_transform L (array_mtx s) (pixel_at inp X)
            in Vector4 (v_x pw / 0) (v_y pw / 0) (v_z pw / 0) (0 / 0))"
    using assms by (simp add: pixel_at_engine Vector4_div_assign_def Let_def)
  then show ?thesis
    by (simp add: Let_def)
qed

text \<open>
  An instance: the second pixel of the sample row, \<open>(4, 6, 8, 0)\<close>, is mapped to
  itself by the sample matrix, so the divisor is zero, and the pixel written is the
  vector of the four quotients by zero. The instance is over the real numbers of
  HOL, whose quotients by zero are all 0, so \<open>N = {0}\<close> there; the theorem is
  about every division.
\<close>

theorem pixel_engine_w_zero_witness:
  "\<forall>L. \<not> aborted sample_node \<and> m_w_divide sample_node \<and> (0::int) \<le> 1 \<and> (1::int) < 2
       \<and> pixel_at sample_row 1 = Vector4 4 6 8 0
       \<and> v_w (Matrix4_transform (exact_lib L) (array_mtx sample_node) (pixel_at sample_row 1))
            = 0
       \<and> (\<forall>a::real. a / 0 \<in> {0})
       \<and> pixel_at (pixel_engine (exact_lib L) sample_node sample_row 0 0 2 blank_row) 1
            = Vector4 (4 / 0) (6 / 0) (8 / 0) (0 / 0)
       \<and> v_x (pixel_at (pixel_engine (exact_lib L) sample_node sample_row 0 0 2 blank_row) 1)
            \<in> {0}"
proof
  fix L :: "(real, real, unit) DDImage"
  have p: "pixel_at sample_row 1 = Vector4 4 6 8 0"
    by (simp add: sample_row_def pixel_at_def)
  have t: "Matrix4_transform (exact_lib L) (array_mtx sample_node) (Vector4 4 6 8 0)
             = Vector4 4 6 8 0"
    by (simp add: sample_node_def exact_lib_def)
  have h: "\<not> aborted sample_node" "m_w_divide sample_node" "(0::int) \<le> 1" "(1::int) < 2"
    "v_w (Matrix4_transform (exact_lib L) (array_mtx sample_node) (pixel_at sample_row 1)) = 0"
    by (simp_all add: p t) (simp_all add: sample_node_def)
  have n: "\<forall>a::real. a / 0 \<in> {0}"
    by simp
  from pixel_engine_w_zero [OF h, of 0 blank_row "{0}"] h p t n
  show "\<not> aborted sample_node \<and> m_w_divide sample_node \<and> (0::int) \<le> 1 \<and> (1::int) < 2
       \<and> pixel_at sample_row 1 = Vector4 4 6 8 0
       \<and> v_w (Matrix4_transform (exact_lib L) (array_mtx sample_node) (pixel_at sample_row 1))
            = 0
       \<and> (\<forall>a::real. a / 0 \<in> {0})
       \<and> pixel_at (pixel_engine (exact_lib L) sample_node sample_row 0 0 2 blank_row) 1
            = Vector4 (4 / 0) (6 / 0) (8 / 0) (0 / 0)
       \<and> v_x (pixel_at (pixel_engine (exact_lib L) sample_node sample_row 0 0 2 blank_row) 1)
            \<in> {0}"
    by simp
qed

text \<open>
  Claim C7. The pixel the kernel leaves at a position \<open>X\<close> depends on the input
  row only through the input pixel at \<open>X\<close>: two input rows that agree at \<open>X\<close>
  give the same output at \<open>X\<close>, for the same node, span and output row. Nor does
  it depend on the order of the iteration: running the loop body over the
  positions of the span in any order \<open>Xs\<close> (with \<open>set Xs = {x..<r}\<close>, repetitions
  allowed) leaves the same pixel at every position as the loop of the source. And
  when the rows \<open>in\<close> and \<open>out\<close> are one row, the writes at the other
  positions still do not reach position \<open>X\<close>: the pixel left there is the one
  the kernel leaves when it reads from a copy of the row.
\<close>

theorem pixel_engine_independent:
  fixes L :: "('f::inverse, 'd, 'fmt) DDImage"
  shows
    "(pixel_at inp1 X = pixel_at inp2 X \<longrightarrow>
        pixel_at (pixel_engine L s inp1 y x r out) X =
        pixel_at (pixel_engine L s inp2 y x r out) X)
     \<and> (\<not> aborted s \<and> set Xs = {x..<r} \<longrightarrow>
        pixel_at (fold (pixel_engine_body L s inp1) Xs out) X =
        pixel_at (pixel_engine L s inp1 y x r out) X)
     \<and> pixel_at (pixel_engine_inplace L s y x r row) X =
        pixel_at (pixel_engine L s row y x r row) X"
  by (simp add: pixel_at_engine pixel_at_fold_body pixel_at_engine_inplace)

theorem pixel_engine_independent_witness:
  "\<forall>L. pixel_at sample_row 0 = pixel_at (sample_row\<lparr>Chan_Red := (\<lambda>X. if X = 0 then 1 else 9)\<rparr>) 0
       \<and> pixel_at sample_row 1
           \<noteq> pixel_at (sample_row\<lparr>Chan_Red := (\<lambda>X. if X = 0 then 1 else 9)\<rparr>) 1
       \<and> pixel_at (pixel_engine (exact_lib L) sample_node sample_row 0 0 2 blank_row) 0 =
          pixel_at (pixel_engine (exact_lib L) sample_node
                      (sample_row\<lparr>Chan_Red := (\<lambda>X. if X = 0 then 1 else 9)\<rparr>) 0 0 2
                      blank_row) 0
       \<and> \<not> aborted sample_node \<and> set [1, 0] = {0..<2::int}
       \<and> pixel_at (fold (pixel_engine_body (exact_lib L) sample_node sample_row) [1, 0]
                      blank_row) 0 =
          pixel_at (pixel_engine (exact_lib L) sample_node sample_row 0 0 2 blank_row) 0
       \<and> pixel_at (pixel_engine_inplace (exact_lib L) sample_node 0 0 2 sample_row) 0 =
          pixel_at (pixel_engine (exact_lib L) sample_node sample_row 0 0 2 sample_row) 0"
proof
  fix L :: "(real, real, unit) DDImage"
  let ?row2 = "sample_row\<lparr>Chan_Red := (\<lambda>X. if X = 0 then 1 else 9)\<rparr>"
  have h1: "pixel_at sample_row 0 = pixel_at ?row2 0"
    by (simp add: sample_row_def pixel_at_def)
  have h2: "pixel_at sample_row 1 \<noteq> pixel_at ?row2 1"
    by (simp add: sample_row_def pixel_at_def)
  have h3: "\<not> aborted sample_node"
    by (simp add: sample_node_def)
  have h4: "set [1, 0] = {0..<2::int}"
    by auto
  from pixel_engine_independent [of sample_row 0 ?row2 "exact_lib L" sample_node 0 0 2
      blank_row "[1, 0]" sample_row] h1 h2 h3 h4
  show "pixel_at sample_row 0 = pixel_at ?row2 0
       \<and> pixel_at sample_row 1 \<noteq> pixel_at ?row2 1
       \<and> pixel_at (pixel_engine (exact_lib L) sample_node sample_row 0 0 2 blank_row) 0 =
          pixel_at (pixel_engine (exact_lib L) sample_node ?row2 0 0 2 blank_row) 0
       \<and> \<not> aborted sample_node \<and> set [1, 0] = {0..<2::int}
       \<and> pixel_at (fold (pixel_engine_body (exact_lib L) sample_node sample_row) [1, 0]
                      blank_row) 0 =
          pixel_at (pixel_engine (exact_lib L) sample_node sample_row 0 0 2 blank_row) 0
       \<and> pixel_at (pixel_engine_inplace (exact_lib L) sample_node 0 0 2 sample_row) 0 =
          pixel_at (pixel_engine (exact_lib L) sample_node sample_row 0 0 2 sample_row) 0"
    by simp
qed

text \<open>
  Claim C8. When the knob \<^verbatim>\<open>matrixFrom\<close> reads "manual input" (index 0, at the
  knob's current context for \<^verbatim>\<open>provideValuesEnabled\<close> and at the queried
  context for \<^verbatim>\<open>provideValues\<close>), the bridge is not enabled and the values it
  returns are the sixteen entries of the identity matrix widened to double
  precision, that is \<open>1, 0, 0, 0, 0, 1, ...\<close> as the widening maps 0 to 0 and 1 to 1.
  The operator on input 1 and the context do not enter: they are arbitrary in the
  statement. Both variants of the source are covered.
\<close>

theorem manual_bridge_identity:
  assumes "get_value (knob_matrixFrom s) = Manual"
    and "get_value_at (knob_matrixFrom s) (frame oc) (view oc) = Manual"
  shows "\<not> provideValuesEnabled s oc
         \<and> \<not> legacy_provideValuesEnabled s oc
         \<and> provideValues L s oc =
             map (static_cast_double L) (Matrix4_array Matrix4_makeIdentity)
         \<and> legacy_provideValues L s oc =
             map (static_cast_double L) (Matrix4_array Matrix4_makeIdentity)
         \<and> length (provideValues L s oc) = 16
         \<and> (static_cast_double L 0 = 0 \<and> static_cast_double L 1 = 1 \<longrightarrow>
              provideValues L s oc = [1, 0, 0, 0, 0, 1, 0, 0, 0, 0, 1, 0, 0, 0, 0, 1]
              \<and> legacy_provideValues L s oc =
                  [1, 0, 0, 0, 0, 1, 0, 0, 0, 0, 1, 0, 0, 0, 0, 1])"
  using assms
  by (simp add: provideValuesEnabled_def legacy_provideValuesEnabled_def Manual_def
        provideValues_closed legacy_provideValues_manual Matrix4_makeIdentity_def)

theorem manual_bridge_identity_witness:
  "\<forall>L. get_value (knob_matrixFrom sample_node) = Manual
       \<and> get_value_at (knob_matrixFrom sample_node)
            (frame sample_context) (view sample_context) = Manual
       \<and> input1 sample_node = Camera sample_camera
       \<and> \<not> provideValuesEnabled sample_node sample_context
       \<and> provideValues (exact_lib L) sample_node sample_context =
            [1, 0, 0, 0, 0, 1, 0, 0, 0, 0, 1, 0, 0, 0, 0, 1]
       \<and> legacy_provideValues (exact_lib L) sample_node sample_context =
            [1, 0, 0, 0, 0, 1, 0, 0, 0, 0, 1, 0, 0, 0, 0, 1]"
proof
  fix L :: "(real, real, unit) DDImage"
  have h1: "get_value (knob_matrixFrom sample_node) = Manual"
    by (simp add: sample_node_def sample_knob_def Manual_def)
  have h2: "get_value_at (knob_matrixFrom sample_node)
              (frame sample_context) (view sample_context) = Manual"
    by (simp add: sample_node_def sample_knob_def Manual_def)
  have h3: "input1 sample_node = Camera sample_camera"
    by (simp add: sample_node_def)
  have h4: "static_cast_double (exact_lib L) 0 = 0 \<and> static_cast_double (exact_lib L) 1 = 1"
    by (simp add: exact_lib_def)
  from manual_bridge_identity [OF h1 h2, of "exact_lib L"] h1 h2 h3 h4
  show "get_value (knob_matrixFrom sample_node) = Manual
       \<and> get_value_at (knob_matrixFrom sample_node)
            (frame sample_context) (view sample_context) = Manual
       \<and> input1 sample_node = Camera sample_camera
       \<and> \<not> provideValuesEnabled sample_node sample_context
       \<and> provideValues (exact_lib L) sample_node sample_context =
            [1, 0, 0, 0, 0, 1, 0, 0, 0, 0, 1, 0, 0, 0, 0, 1]
       \<and> legacy_provideValues (exact_lib L) sample_node sample_context =
            [1, 0, 0, 0, 0, 1, 0, 0, 0, 0, 1, 0, 0, 0, 0, 1]"
    by (simp add: exact_lib_def Matrix4_makeIdentity_def)
qed

text \<open>
  Claim C9. The two \<^verbatim>\<open>provideValues\<close> overloads of the 16.1+ variant agree:
  for every context and every count \<open>n \<le> 16\<close> (the caller's buffer holding at
  least \<open>n\<close> numbers), the first \<open>n\<close> numbers of the buffer after the
  buffer-based call are the first \<open>n\<close> numbers of the vector the vector-based
  call returns.
\<close>

theorem provideValues_overloads_agree:
  assumes "n \<le> 16" and "n \<le> length vals"
  shows "take n (provideValues_buffer L s vals n oc) = take n (provideValues L s oc)"
proof -
  let ?m = "Matrix4_array
              (if get_value_at (knob_matrixFrom s) (frame oc) (view oc) = 1
               then m_getInputMatrix L s oc else Matrix4_makeIdentity)"
  have len: "length ?m = 16"
    by (rule Matrix4_array_length)
  have "provideValues_buffer L s vals n oc =
          map (static_cast_double L) (take n ?m) @ drop n vals"
    using assms by (simp add: provideValues_buffer_closed min_absorb1)
  moreover have "length (map (static_cast_double L) (take n ?m)) = n"
    using assms len by simp
  ultimately have "take n (provideValues_buffer L s vals n oc) =
                     map (static_cast_double L) (take n ?m)"
    by simp
  moreover have "take n (provideValues L s oc) = map (static_cast_double L) (take n ?m)"
    by (simp add: provideValues_closed take_map)
  ultimately show ?thesis by simp
qed

theorem provideValues_overloads_agree_witness:
  "\<forall>L. (3::nat) \<le> 16 \<and> 3 \<le> length [7, 7, 7, 7, 7::real]
       \<and> provideValues_buffer (exact_lib L)
            (sample_node\<lparr>knob_matrixFrom := sample_knob 1\<rparr>) [7, 7, 7, 7, 7] 3
            sample_context = [2, 0, 0, 7, 7]
       \<and> provideValues (exact_lib L)
            (sample_node\<lparr>knob_matrixFrom := sample_knob 1\<rparr>) sample_context =
            [2, 0, 0, 0, 0, 3, 0, 0, 0, 0, -1, -1, 0, 0, -2, 0]
       \<and> take 3 (provideValues_buffer (exact_lib L)
            (sample_node\<lparr>knob_matrixFrom := sample_knob 1\<rparr>) [7, 7, 7, 7, 7] 3
            sample_context) =
         take 3 (provideValues (exact_lib L)
            (sample_node\<lparr>knob_matrixFrom := sample_knob 1\<rparr>) sample_context)"
proof
  fix L :: "(real, real, unit) DDImage"
  let ?s = "sample_node\<lparr>knob_matrixFrom := sample_knob 1\<rparr>"
  have h: "(3::nat) \<le> 16" "3 \<le> length [7, 7, 7, 7, 7::real]"
    by simp_all
  have m: "m_getInputMatrix (exact_lib L) ?s sample_context =
             Matrix4 2 0 0 0  0 3 0 0  0 0 (-1) (-1)  0 0 (-2) 0"
    by (simp add: m_getInputMatrix_def Let_def getCameraMatrix_def mat4dToMatrix4_map
          sample_node_def sample_knob_def sample_camera_def exact_lib_def)
  have k: "get_value_at (sample_knob 1) f v = 1" for f v
    by (simp add: sample_knob_def)
  have b: "provideValues_buffer (exact_lib L) ?s [7, 7, 7, 7, 7] 3 sample_context
             = [2, 0, 0, 7, 7]"
    by (simp add: provideValues_buffer_closed k m) (simp add: exact_lib_def)
  have v: "provideValues (exact_lib L) ?s sample_context =
             [2, 0, 0, 0, 0, 3, 0, 0, 0, 0, -1, -1, 0, 0, -2, 0]"
    by (simp add: provideValues_closed k m) (simp add: exact_lib_def)
  from provideValues_overloads_agree [OF h, of "exact_lib L" ?s sample_context] h b v
  show "(3::nat) \<le> 16 \<and> 3 \<le> length [7, 7, 7, 7, 7::real]
       \<and> provideValues_buffer (exact_lib L) ?s [7, 7, 7, 7, 7] 3 sample_context
            = [2, 0, 0, 7, 7]
       \<and> provideValues (exact_lib L) ?s sample_context =
            [2, 0, 0, 0, 0, 3, 0, 0, 0, 0, -1, -1, 0, 0, -2, 0]
       \<and> take 3 (provideValues_buffer (exact_lib L) ?s [7, 7, 7, 7, 7] 3 sample_context) =
         take 3 (provideValues (exact_lib L) ?s sample_context)"
    by blast
qed

text \<open>
  Claim C10. The buffer-based \<^verbatim>\<open>provideValues\<close> writes the first
  \<open>min nValues 16\<close> entries of the caller's buffer, entry \<open>i\<close> receiving the
  widened entry \<open>i\<close> of the matrix, and leaves every entry from index
  \<open>min nValues 16\<close> on as it was; the buffer keeps its length. This holds for
  every \<open>nValues\<close>, also above 16 and at 0, for a buffer that holds at least
  \<open>nValues\<close> numbers.
\<close>

theorem provideValues_buffer_frame:
  assumes "nValues \<le> length vals"
  shows "provideValues_buffer L s vals nValues oc =
           map (static_cast_double L)
             (take (min nValues 16)
                (Matrix4_array
                   (if get_value_at (knob_matrixFrom s) (frame oc) (view oc) = 1
                    then m_getInputMatrix L s oc else Matrix4_makeIdentity)))
           @ drop (min nValues 16) vals
         \<and> length (provideValues_buffer L s vals nValues oc) = length vals
         \<and> (\<forall>i. min nValues 16 \<le> i \<and> i < length vals \<longrightarrow>
               provideValues_buffer L s vals nValues oc ! i = vals ! i)
         \<and> (\<forall>i. i < min nValues 16 \<longrightarrow>
               provideValues_buffer L s vals nValues oc ! i =
                 static_cast_double L
                   (Matrix4_array
                      (if get_value_at (knob_matrixFrom s) (frame oc) (view oc) = 1
                       then m_getInputMatrix L s oc else Matrix4_makeIdentity) ! i))"
proof -
  define m where "m = Matrix4_array
              (if get_value_at (knob_matrixFrom s) (frame oc) (view oc) = 1
               then m_getInputMatrix L s oc else Matrix4_makeIdentity)"
  define c where "c = min nValues (16::nat)"
  have out: "provideValues_buffer L s vals nValues oc = provideValues_loop L m c 0 vals"
    by (simp add: provideValues_buffer_def Let_def m_def c_def)
  have c: "c \<le> length vals"
    using assms by (simp add: c_def)
  have nth: "provideValues_buffer L s vals nValues oc ! i =
             (if i < c then static_cast_double L (m ! i) else vals ! i)"
    if "i < length vals" for i
    using provideValues_loop_nth [OF that, of L m c 0] by (simp add: out)
  have "provideValues_buffer L s vals nValues oc =
          map (static_cast_double L) (take c m) @ drop c vals"
    unfolding m_def c_def using assms by (rule provideValues_buffer_closed)
  moreover have "length (provideValues_buffer L s vals nValues oc) = length vals"
    by (simp only: out provideValues_loop_length)
  moreover have "provideValues_buffer L s vals nValues oc ! i = vals ! i"
    if "c \<le> i \<and> i < length vals" for i
    using that nth [of i] by simp
  moreover have "provideValues_buffer L s vals nValues oc ! i = static_cast_double L (m ! i)"
    if "i < c" for i
    using that c nth [of i] by simp
  ultimately show ?thesis
    unfolding m_def c_def by blast
qed

theorem provideValues_buffer_frame_witness:
  "\<forall>L. (18::nat) \<le> length [7, 7, 7, 7, 7, 7, 7, 7, 7, 7, 7, 7, 7, 7, 7, 7, 7, 7::real]
       \<and> provideValues_buffer (exact_lib L)
            (sample_node\<lparr>knob_matrixFrom := sample_knob 1\<rparr>) [7, 7, 7, 7, 7, 7, 7, 7, 7, 7, 7, 7, 7, 7, 7, 7, 7, 7] 18
            sample_context =
            [2, 0, 0, 0, 0, 3, 0, 0, 0, 0, -1, -1, 0, 0, -2, 0, 7, 7]
       \<and> (0::nat) \<le> length [7, 7::real]
       \<and> provideValues_buffer (exact_lib L)
            (sample_node\<lparr>knob_matrixFrom := sample_knob 1\<rparr>) [7, 7] 0
            sample_context = [7, 7]"
proof
  fix L :: "(real, real, unit) DDImage"
  let ?s = "sample_node\<lparr>knob_matrixFrom := sample_knob 1\<rparr>"
  have h1: "(18::nat) \<le> length [7, 7, 7, 7, 7, 7, 7, 7, 7, 7, 7, 7, 7, 7, 7, 7, 7, 7::real]"
    by simp
  have h2: "(0::nat) \<le> length [7, 7::real]"
    by simp
  have m: "m_getInputMatrix (exact_lib L) ?s sample_context =
             Matrix4 2 0 0 0  0 3 0 0  0 0 (-1) (-1)  0 0 (-2) 0"
    by (simp add: m_getInputMatrix_def Let_def getCameraMatrix_def mat4dToMatrix4_map
          sample_node_def sample_knob_def sample_camera_def exact_lib_def)
  have k: "get_value_at (sample_knob 1) f v = 1" for f v
    by (simp add: sample_knob_def)
  have c: "static_cast_double (exact_lib L) = (\<lambda>v. v)"
    by (simp add: exact_lib_def)
  from provideValues_buffer_frame [OF h1, of "exact_lib L" ?s sample_context]
  have a: "provideValues_buffer (exact_lib L) ?s [7, 7, 7, 7, 7, 7, 7, 7, 7, 7, 7, 7, 7, 7, 7, 7, 7, 7] 18 sample_context =
             [2, 0, 0, 0, 0, 3, 0, 0, 0, 0, -1, -1, 0, 0, -2, 0, 7, 7]"
    by (simp add: k m c)
  from provideValues_buffer_frame [OF h2, of "exact_lib L" ?s sample_context]
  have b: "provideValues_buffer (exact_lib L) ?s [7, 7] 0 sample_context = [7, 7]"
    by simp
  from a b h1 h2
  show "(18::nat) \<le> length [7, 7, 7, 7, 7, 7, 7, 7, 7, 7, 7, 7, 7, 7, 7, 7, 7, 7::real]
       \<and> provideValues_buffer (exact_lib L) ?s [7, 7, 7, 7, 7, 7, 7, 7, 7, 7, 7, 7, 7, 7, 7, 7, 7, 7] 18 sample_context =
            [2, 0, 0, 0, 0, 3, 0, 0, 0, 0, -1, -1, 0, 0, -2, 0, 7, 7]
       \<and> (0::nat) \<le> length [7, 7::real]
       \<and> provideValues_buffer (exact_lib L) ?s [7, 7] 0 sample_context = [7, 7]"
    by blast
qed

end
